theory Spec2Isabelle
  imports Main "HOL-Library.Word"
begin

section \<open>The streaming query view (views/aidata/query/index.vue)\<close>

text \<open>
  The view keeps its state in module-scope refs (\<open>query\<close>, \<open>loading\<close>, \<open>messages\<close>,
  \<open>connections\<close>, \<open>selectedConnectionId\<close>, \<open>eventSource\<close>, \<open>currentSessionId\<close>) and
  mutates them from the user's handlers (\<open>handleSend\<close>, \<open>handleClear\<close>), from
  \<open>loadConnections\<close>, and from the two callbacks it installs on every EventSource it
  creates (\<open>es.onmessage\<close>, \<open>es.onerror\<close>). The embedding is explicit state passing:
  every handler is a function from the state before to the state after. What the
  handlers do to the outside (notifications, console output, closing and opening a
  channel) is appended, in program order, to a log kept in the state.
\<close>

subsection \<open>JavaScript strings\<close>

text \<open>
  A JavaScript string is a sequence of UTF-16 code units. The literals of the source
  that are not ASCII are written out as code units below.
\<close>

type_synonym jsstring = "16 word list"

definition ascii :: "string \<Rightarrow> jsstring" where
  "ascii s = map (\<lambda>c. of_nat (of_char c)) s"

text \<open>
  \<open>String.prototype.trim\<close> removes WhiteSpace and LineTerminator code units from both
  ends: TAB, LF, VT, FF, CR, SP, NBSP, U+1680, U+2000..U+200A, U+2028, U+2029, U+202F,
  U+205F, U+3000 and U+FEFF.
\<close>

definition is_white_space :: "16 word \<Rightarrow> bool" where
  "is_white_space c \<longleftrightarrow>
     c = 0x9 \<or> c = 0xA \<or> c = 0xB \<or> c = 0xC \<or> c = 0xD \<or> c = 0x20 \<or> c = 0xA0 \<or>
     c = 0x1680 \<or> (0x2000 \<le> c \<and> c \<le> 0x200A) \<or> c = 0x2028 \<or> c = 0x2029 \<or>
     c = 0x202F \<or> c = 0x205F \<or> c = 0x3000 \<or> c = 0xFEFF"

definition trim :: "jsstring \<Rightarrow> jsstring" where
  "trim s = rev (dropWhile is_white_space (rev (dropWhile is_white_space s)))"

text \<open>
  \<open>encodeURIComponent\<close> throws a URIError on a string with a lone surrogate: a low
  surrogate that follows no high one, or a high surrogate that no low one follows.
\<close>

fun well_formed_utf16 :: "jsstring \<Rightarrow> bool" where
  "well_formed_utf16 [] = True"
| "well_formed_utf16 (c # cs) =
     (if 0xD800 \<le> c \<and> c \<le> 0xDBFF then
        (case cs of
           [] \<Rightarrow> False
         | d # ds \<Rightarrow> 0xDC00 \<le> d \<and> d \<le> 0xDFFF \<and> well_formed_utf16 ds)
      else if 0xDC00 \<le> c \<and> c \<le> 0xDFFF then False
      else well_formed_utf16 cs)"

subsection \<open>Parsed JSON payloads\<close>

text \<open>
  \<open>JSON.parse(event.data)\<close> is the platform's; an event carries its outcome: \<open>None\<close>
  when it throws a SyntaxError, the parsed value otherwise. An object is the list of
  its own properties (a key occurs once). A number is kept as the two things the
  callback observes of it, both the platform's: whether it is zero (ToBoolean), and
  its rendering by ToString.
\<close>

datatype json =
    JNull
  | JBool bool
  | JNum bool jsstring
  | JStr jsstring
  | JArr "json list"
  | JObj "(jsstring \<times> json) list"

text \<open>Reading a property: \<open>None\<close> is \<open>undefined\<close>. Only an object has own properties
  named \<open>content\<close> or \<open>is_final\<close>; reading a property of \<open>null\<close> throws and is handled
  where it is read.\<close>

fun get_prop :: "json \<Rightarrow> jsstring \<Rightarrow> json option" where
  "get_prop (JObj kvs) k = map_of kvs k"
| "get_prop _ k = None"

text \<open>ToBoolean.\<close>

fun truthy :: "json option \<Rightarrow> bool" where
  "truthy None = False"
| "truthy (Some JNull) = False"
| "truthy (Some (JBool b)) = b"
| "truthy (Some (JNum zero rendering)) = (\<not> zero)"
| "truthy (Some (JStr s)) = (s \<noteq> [])"
| "truthy (Some (JArr xs)) = True"
| "truthy (Some (JObj kvs)) = True"

fun join_comma :: "jsstring list \<Rightarrow> jsstring" where
  "join_comma [] = []"
| "join_comma [s] = s"
| "join_comma (s # t # ss) = s @ [0x2C] @ join_comma (t # ss)"

text \<open>
  ToString, as string concatenation applies it to the right operand of \<open>+=\<close>; \<open>None\<close>
  is a TypeError. An array joins its elements with commas (\<open>null\<close> elements render
  empty). An object renders as \<open>[object Object]\<close> through \<open>Object.prototype.toString\<close>,
  unless it has an own property \<open>toString\<close>: a parsed value is never callable, so the
  object then has no primitive value and the conversion throws.
\<close>

fun to_string :: "json \<Rightarrow> jsstring option" where
  "to_string JNull = Some (ascii ''null'')"
| "to_string (JBool b) = Some (if b then ascii ''true'' else ascii ''false'')"
| "to_string (JNum zero rendering) = Some rendering"
| "to_string (JStr s) = Some s"
| "to_string (JArr xs) =
     map_option join_comma
       (those (map (\<lambda>x. if x = JNull then Some [] else to_string x) xs))"
| "to_string (JObj kvs) =
     (if map_of kvs (ascii ''toString'') = None then Some (ascii ''[object Object]'') else None)"

text \<open>\<open>aiContent += data.content\<close> throws: the content is truthy and has no rendering.\<close>

definition content_throws :: "json \<Rightarrow> bool" where
  "content_throws data \<longleftrightarrow>
     truthy (get_prop data (ascii ''content'')) \<and>
     to_string (the (get_prop data (ascii ''content''))) = None"

subsection \<open>The data of the view\<close>

datatype role = User | Assistant

text \<open>\<open>interface ChatMessage\<close>. The optional fields \<open>loading\<close> and \<open>error\<close> are options
  (\<open>None\<close> is absent); \<open>timestamp\<close> is the Date's time value.\<close>

record ChatMessage =
  msg_id :: jsstring
  msg_type :: role
  content :: jsstring
  timestamp :: nat
  msg_loading :: "bool option"
  error :: "jsstring option"

text \<open>\<open>interface ConnSourceDTO\<close> (connector/data.ts).\<close>

record ConnSourceDTO =
  conn_id :: int
  name :: jsstring
  conn_type :: jsstring
  host :: jsstring
  port :: int
  username :: jsstring
  password_encrypted :: jsstring
  db_name :: jsstring
  status :: int
  description :: "jsstring option"

text \<open>
  An EventSource object created by \<open>handleSend\<close>. \<open>closed\<close> is \<open>readyState = CLOSED\<close>.
  The stream URL is kept as the parameters it is built from. \<open>aiContent\<close> is the local
  variable of \<open>handleSend\<close> that the object's two callbacks close over: one per object.
\<close>

record EventSourceObj =
  closed :: bool
  api_base :: jsstring
  url_query :: jsstring
  url_connection_id :: int
  url_session_id :: jsstring
  aiContent :: jsstring

text \<open>What a handler does to the outside, in program order.\<close>

datatype effect =
    MessageWarning jsstring
  | MessageError jsstring
  | ConsoleError jsstring
  | EsClose nat
  | EsOpen nat
  | UncaughtURIError

text \<open>
  The refs of the view, the EventSource objects created so far (a handle is an index
  into \<open>sources\<close>, and \<open>eventSource\<close> holds a handle or \<open>null\<close>), and the log.
\<close>

record state =
  query :: jsstring
  loading :: bool
  messages :: "ChatMessage list"
  connections :: "ConnSourceDTO list"
  selectedConnectionId :: "int option"
  eventSource :: "nat option"
  currentSessionId :: jsstring
  sources :: "EventSourceObj list"
  effects :: "effect list"

definition init :: state where
  "init = \<lparr> query = [], loading = False, messages = [], connections = [],
            selectedConnectionId = None, eventSource = None, currentSessionId = [],
            sources = [], effects = [] \<rparr>"

text \<open>The message literals of the source, as code units.\<close>

definition msg_enter_question :: jsstring where
  "msg_enter_question = [0x8BF7, 0x8F93, 0x5165, 0x95EE, 0x9898]"

definition msg_select_source :: jsstring where
  "msg_select_source = [0x8BF7, 0x5148, 0x9009, 0x62E9, 0x6570, 0x636E, 0x6E90]"

definition msg_connection_failed :: jsstring where
  "msg_connection_failed =
     [0x8FDE, 0x63A5, 0x5931, 0x8D25, 0xFF0C, 0x8BF7, 0x7A0D, 0x540E, 0x91CD, 0x8BD5]"

definition msg_send_failed :: jsstring where
  "msg_send_failed = [0x53D1, 0x9001, 0x8BF7, 0x6C42, 0x5931, 0x8D25]"

definition msg_load_failed :: jsstring where
  "msg_load_failed = [0x52A0, 0x8F7D, 0x6570, 0x636E, 0x6E90, 0x5931, 0x8D25]"

definition log_parse_failed :: jsstring where
  "log_parse_failed = [0x89E3, 0x6790, 0x53, 0x53, 0x45, 0x6D88, 0x606F, 0x5931, 0x8D25, 0x3A]"

definition log_sse_error :: jsstring where
  "log_sse_error = [0x53, 0x53, 0x45, 0x8FDE, 0x63A5, 0x9519, 0x8BEF, 0x3A]"

definition log_send_failed :: jsstring where
  "log_send_failed = [0x53D1, 0x9001, 0x8BF7, 0x6C42, 0x5931, 0x8D25, 0x3A]"

definition log_load_failed :: jsstring where
  "log_load_failed = [0x52A0, 0x8F7D, 0x6570, 0x636E, 0x6E90, 0x5931, 0x8D25, 0x3A]"

subsection \<open>Shared pieces of the handlers\<close>

text \<open>
  \<open>es.close()\<close>: the object's readyState becomes CLOSED. A handle that \<open>eventSource\<close>
  or a callback holds always names an object of \<open>sources\<close>.
\<close>

definition es_close :: "nat \<Rightarrow> state \<Rightarrow> state" where
  "es_close es st =
     st\<lparr> sources := (sources st)[es := (sources st ! es)\<lparr> closed := True \<rparr>],
         effects := effects st @ [EsClose es] \<rparr>"

text \<open>
  The pattern that every callback uses on the transcript:
  \<^verbatim>\<open>
  const lastAiMessage = messages.value[messages.value.length - 1];
  if (lastAiMessage && lastAiMessage.type === 'assistant') { ... }
  \<close>
  Indexing an empty array at \<open>-1\<close> gives \<open>undefined\<close>, which the guard rejects; the
  body mutates the last element in place.
\<close>

definition with_lastAiMessage ::
  "(ChatMessage \<Rightarrow> ChatMessage) \<Rightarrow> ChatMessage list \<Rightarrow> ChatMessage list" where
  "with_lastAiMessage f ms =
     (if ms = [] then ms
      else if msg_type (last ms) = Assistant then butlast ms @ [f (last ms)]
      else ms)"

text \<open>\<open>!selectedConnectionId.value\<close> is true of \<open>null\<close> and of the number 0.\<close>

definition no_selection :: "int option \<Rightarrow> bool" where
  "no_selection sel = (case sel of None \<Rightarrow> True | Some c \<Rightarrow> c = 0)"

subsection \<open>loadConnections\<close>

text \<open>The outcome of \<open>await getConnSourcesApi()\<close>: the request rejects, or it resolves
  with a page whose \<open>items\<close> are given.\<close>

datatype fetch_result = FetchFailed | FetchOk "ConnSourceDTO list"

definition loadConnections :: "fetch_result \<Rightarrow> state \<Rightarrow> state" where
  "loadConnections res st =
     (case res of
        FetchFailed \<Rightarrow>
          st\<lparr> effects := effects st @ [ConsoleError log_load_failed, MessageError msg_load_failed] \<rparr>
      | FetchOk items \<Rightarrow>
          let st1 = st\<lparr> connections := filter (\<lambda>c. status c = 1) items \<rparr>
          in if length (connections st1) > 0 \<and> no_selection (selectedConnectionId st1)
             then st1\<lparr> selectedConnectionId := Some (conn_id (hd (connections st1))) \<rparr>
             else st1)"

subsection \<open>The callbacks of an EventSource\<close>

text \<open>A MessageEvent as the callback reads it: \<open>event.type\<close> and the outcome of
  \<open>JSON.parse(event.data)\<close>.\<close>

record event =
  ev_type :: jsstring
  ev_data :: "json option"

text \<open>
  \<open>es.onmessage\<close> (lines 100 to 128), for the object \<open>es\<close>. The whole body is inside
  \<open>try\<close>: a SyntaxError of \<open>JSON.parse\<close>, the TypeError of reading \<open>data.content\<close>
  when the payload is \<open>null\<close>, and the TypeError of the concatenation at line 105 are
  all thrown before anything is written and end in the \<open>catch\<close>, which only logs.
\<close>

definition onmessage :: "nat \<Rightarrow> event \<Rightarrow> state \<Rightarrow> state" where
  "onmessage es ev st =
     (if ev_data ev = None \<or> ev_data ev = Some JNull \<or> content_throws (the (ev_data ev))
      then st\<lparr> effects := effects st @ [ConsoleError log_parse_failed] \<rparr>
      else
        let data = the (ev_data ev);
            is_final = truthy (get_prop data (ascii ''is_final''));
            st1 =
              (if truthy (get_prop data (ascii ''content'')) then
                 let ai = aiContent (sources st ! es)
                            @ the (to_string (the (get_prop data (ascii ''content''))))
                 in st\<lparr> sources := (sources st)[es := (sources st ! es)\<lparr> aiContent := ai \<rparr>],
                        messages := with_lastAiMessage
                          (\<lambda>m. m\<lparr> content := ai, msg_loading := Some (\<not> is_final) \<rparr>)
                          (messages st) \<rparr>
               else st)
        in if is_final \<or> ev_type ev = ascii ''final_result'' then
             (es_close es st1)
               \<lparr> eventSource := None, loading := False,
                 messages := with_lastAiMessage (\<lambda>m. m\<lparr> msg_loading := Some False \<rparr>)
                               (messages st1) \<rparr>
           else st1)"

text \<open>\<open>es.onerror\<close> (lines 131 to 144), for the object \<open>es\<close>.\<close>

definition onerror :: "nat \<Rightarrow> state \<Rightarrow> state" where
  "onerror es st =
     (let st1 = es_close es (st\<lparr> effects := effects st @ [ConsoleError log_sse_error] \<rparr>);
          st2 = st1\<lparr> eventSource := None, loading := False,
                     messages := with_lastAiMessage
                       (\<lambda>m. m\<lparr> msg_loading := Some False, error := Some msg_connection_failed \<rparr>)
                       (messages st1) \<rparr>
      in st2\<lparr> effects := effects st2 @ [MessageError msg_connection_failed] \<rparr>)"

subsection \<open>handleSend\<close>

text \<open>
  What \<open>handleSend\<close> takes from its environment: the three results of \<open>generateId()\<close>
  (time and random digits), the two results of \<open>new Date()\<close>, the build-time variable
  \<open>VITE_API_URL\<close>, and whether the EventSource constructor accepts the URL (it throws a
  SyntaxError on one that does not parse, which depends on \<open>VITE_API_URL\<close>).
\<close>

record send_env =
  id_user :: jsstring
  id_ai :: jsstring
  id_session :: jsstring
  now_user :: nat
  now_ai :: nat
  vite_api_url :: "jsstring option"
  url_accepted :: bool

text \<open>\<open>import.meta.env.VITE_API_URL || 'http://localhost:8000'\<close>.\<close>

definition apiBase :: "send_env \<Rightarrow> jsstring" where
  "apiBase env =
     (case vite_api_url env of
        None \<Rightarrow> ascii ''http://localhost:8000''
      | Some u \<Rightarrow> if u = [] then ascii ''http://localhost:8000'' else u)"

text \<open>Lines 57 to 81: the two turns are pushed, the input is emptied, \<open>loading\<close> is set
  and the session id is drawn.\<close>

definition userMessage :: "send_env \<Rightarrow> state \<Rightarrow> ChatMessage" where
  "userMessage env st =
     \<lparr> msg_id = id_user env, msg_type = User, content = trim (query st),
       timestamp = now_user env, msg_loading = None, error = None \<rparr>"

definition aiMessage :: "send_env \<Rightarrow> ChatMessage" where
  "aiMessage env =
     \<lparr> msg_id = id_ai env, msg_type = Assistant, content = [],
       timestamp = now_ai env, msg_loading = Some True, error = None \<rparr>"

definition push_turns :: "send_env \<Rightarrow> state \<Rightarrow> state" where
  "push_turns env st =
     st\<lparr> messages := messages st @ [userMessage env st, aiMessage env],
         query := [], loading := True, currentSessionId := id_session env \<rparr>"

text \<open>
  Lines 83 to 155. \<open>encodeURIComponent(currentQuery)\<close> is evaluated outside the \<open>try\<close>:
  its URIError leaves the async function rejected with nothing undone. Inside the
  \<open>try\<close> the held EventSource, if any, is closed, then the new one is constructed and
  stored; the \<open>catch\<close> handles the constructor's exception.
\<close>

definition open_stream :: "send_env \<Rightarrow> jsstring \<Rightarrow> state \<Rightarrow> state" where
  "open_stream env currentQuery st =
     (if \<not> well_formed_utf16 currentQuery
      then st\<lparr> effects := effects st @ [UncaughtURIError] \<rparr>
      else
        let st1 = (case eventSource st of None \<Rightarrow> st | Some old \<Rightarrow> es_close old st)
        in if url_accepted env then
             let es = length (sources st1)
             in st1\<lparr> sources := sources st1 @
                        [\<lparr> closed = False, api_base = apiBase env, url_query = currentQuery,
                           url_connection_id = the (selectedConnectionId st1),
                           url_session_id = currentSessionId st1, aiContent = [] \<rparr>],
                      eventSource := Some es,
                      effects := effects st1 @ [EsOpen es] \<rparr>
           else
             st1\<lparr> loading := False,
                  effects := effects st1 @ [ConsoleError log_send_failed, MessageError msg_send_failed],
                  messages := with_lastAiMessage
                    (\<lambda>m. m\<lparr> msg_loading := Some False, error := Some msg_send_failed \<rparr>)
                    (messages st1) \<rparr>)"

definition handleSend :: "send_env \<Rightarrow> state \<Rightarrow> state" where
  "handleSend env st =
     (if trim (query st) = []
      then st\<lparr> effects := effects st @ [MessageWarning msg_enter_question] \<rparr>
      else if no_selection (selectedConnectionId st)
      then st\<lparr> effects := effects st @ [MessageWarning msg_select_source] \<rparr>
      else if loading st then st
      else open_stream env (trim (query st)) (push_turns env st))"

subsection \<open>handleClear and teardown\<close>

definition handleClear :: "state \<Rightarrow> state" where
  "handleClear st =
     (let st1 = st\<lparr> messages := [] \<rparr>;
          st2 = (case eventSource st1 of
                   None \<Rightarrow> st1
                 | Some es \<Rightarrow> (es_close es st1)\<lparr> eventSource := None \<rparr>)
      in st2\<lparr> loading := False \<rparr>)"

definition onUnmounted :: "state \<Rightarrow> state" where
  "onUnmounted st = (case eventSource st of None \<Rightarrow> st | Some es \<Rightarrow> es_close es st)"

subsection \<open>The platform: when a callback runs\<close>

text \<open>
  The two callbacks are run by the browser's EventSource, whose contract (HTML standard,
  server-sent events) is what the program relies on and is written out here:
  \<^item> an object whose readyState is CLOSED dispatches nothing, neither messages nor
    errors;
  \<^item> \<open>onmessage\<close> is the handler of events of type \<open>message\<close>, the type of every event
    the server sends without an \<open>event:\<close> field. An event the server names otherwise
    goes to the listeners added for that name; the view adds none.
\<close>

datatype delivery = ServerEvent event | ConnectionError

definition deliver :: "nat \<Rightarrow> delivery \<Rightarrow> state \<Rightarrow> state" where
  "deliver es d st =
     (if es < length (sources st) \<and> \<not> closed (sources st ! es) then
        (case d of
           ServerEvent ev \<Rightarrow> if ev_type ev = ascii ''message'' then onmessage es ev st else st
         | ConnectionError \<Rightarrow> onerror es st)
      else st)"

text \<open>
  Everything that can happen to the mounted view, one at a time (the callbacks and the
  handlers run to completion on one event loop): the user edits the input or picks a
  data source (the Select's \<open>v-model\<close> writes the ref and its \<open>@change\<close> runs
  \<open>handleClear\<close>), sends, clears; the connection list arrives; the platform delivers to
  one of the EventSource objects; the view is torn down.
\<close>

datatype action =
    EditQuery jsstring
  | PickConnection "int option"
  | Send send_env
  | Clear
  | Loaded fetch_result
  | Deliver nat delivery
  | Unmount

fun step :: "action \<Rightarrow> state \<Rightarrow> state" where
  "step (EditQuery q) st = st\<lparr> query := q \<rparr>"
| "step (PickConnection c) st = handleClear (st\<lparr> selectedConnectionId := c \<rparr>)"
| "step (Send env) st = handleSend env st"
| "step Clear st = handleClear st"
| "step (Loaded res) st = loadConnections res st"
| "step (Deliver es d) st = deliver es d st"
| "step Unmount st = onUnmounted st"

definition run :: "action list \<Rightarrow> state \<Rightarrow> state" where
  "run acts st = fold step acts st"

text \<open>
  \<open>loadConnections\<close> has one call site, in \<open>onMounted\<close> (line 185): a run of the view
  has one \<open>Loaded\<close> action, the outcome of that call's fetch.
\<close>

fun is_load :: "action \<Rightarrow> bool" where
  "is_load (Loaded res) = True"
| "is_load a = False"

subsection \<open>Reading the state\<close>

text \<open>The handles of the EventSource objects that are not closed.\<close>

definition open_handles :: "state \<Rightarrow> nat list" where
  "open_handles st = filter (\<lambda>i. \<not> closed (sources st ! i)) [0 ..< length (sources st)]"

text \<open>The single slot: an EventSource that is not closed is the one \<open>eventSource\<close> holds.\<close>

definition single_slot :: "state \<Rightarrow> bool" where
  "single_slot st \<longleftrightarrow> list_all (\<lambda>i. eventSource st = Some i) (open_handles st)"


text \<open>
  The session states of the specification, read off the refs. The view has no state
  variable of its own for them: a session is in flight (Opening or Streaming) exactly
  while \<open>loading\<close> is set; otherwise it is Failed when the last turn carries an error,
  Completed when there is a last turn without one, and Idle on an empty transcript.
\<close>

datatype phase = Idle | InFlight | Completed | Failed

definition session_phase :: "state \<Rightarrow> phase" where
  "session_phase st =
     (if loading st then InFlight
      else if messages st = [] then Idle
      else if error (last (messages st)) \<noteq> None then Failed
      else Completed)"

subsection \<open>Sample inputs\<close>

text \<open>Events as the stream endpoint sends them: a content chunk and a final chunk
  without an \<open>event:\<close> field, and an event named \<open>final_result\<close>.\<close>

definition chunk :: "jsstring \<Rightarrow> event" where
  "chunk s = \<lparr> ev_type = ascii ''message'', ev_data = Some (JObj [(ascii ''content'', JStr s)]) \<rparr>"

definition final_chunk :: event where
  "final_chunk = \<lparr> ev_type = ascii ''message'',
                   ev_data = Some (JObj [(ascii ''is_final'', JBool True)]) \<rparr>"

definition named_final :: event where
  "named_final = \<lparr> ev_type = ascii ''final_result'',
                   ev_data = Some (JObj [(ascii ''is_final'', JBool False)]) \<rparr>"

text \<open>The query of the specification's scenario (U+67E5 U+8BE2 U+9500 U+552E U+989D
  U+6700 U+9AD8 U+7684 "10" U+4E2A U+4EA7 U+54C1); its chunks are U+9500 and U+552E.\<close>

definition scenario_query :: jsstring where
  "scenario_query =
     [0x67E5, 0x8BE2, 0x9500, 0x552E, 0x989D, 0x6700, 0x9AD8, 0x7684, 0x31, 0x30,
      0x4E2A, 0x4EA7, 0x54C1]"

definition sample_env :: send_env where
  "sample_env = \<lparr> id_user = ascii ''u1'', id_ai = ascii ''a1'', id_session = ascii ''s1'',
                   now_user = 1, now_ai = 2, vite_api_url = None, url_accepted = True \<rparr>"

text \<open>The mounted view with the scenario's query typed and connection 5 selected, and
  the same after a send.\<close>

definition ready :: state where
  "ready = init\<lparr> query := scenario_query, selectedConnectionId := Some 5 \<rparr>"

definition streaming :: state where
  "streaming = run [Send sample_env] ready"

text \<open>The query typed again while the first session is streaming.\<close>

definition streaming_retyped :: state where
  "streaming_retyped = run [EditQuery scenario_query] streaming"

text \<open>A first session cleared after one chunk, and the query typed again.\<close>

definition cleared_midway :: state where
  "cleared_midway =
     run [Deliver 0 (ServerEvent (chunk [0x9500])), Clear, EditQuery scenario_query] streaming"

definition sample_connection :: ConnSourceDTO where
  "sample_connection =
     \<lparr> conn_id = 5, name = ascii ''sales'', conn_type = ascii ''mysql'', host = ascii ''db'',
       port = 3306, username = ascii ''ro'', password_encrypted = [], db_name = ascii ''shop'',
       status = 1, description = None \<rparr>"

section \<open>Properties\<close>

subsection \<open>Evaluation and projection lemmas\<close>

lemmas sample_defs = sample_env_def ready_def streaming_def streaming_retyped_def init_def
  scenario_query_def chunk_def final_chunk_def named_final_def sample_connection_def
  cleared_midway_def

lemmas view_defs = handleSend_def open_stream_def push_turns_def userMessage_def aiMessage_def
  handleClear_def onUnmounted_def loadConnections_def deliver_def onmessage_def onerror_def
  es_close_def with_lastAiMessage_def no_selection_def trim_def is_white_space_def ascii_def
  content_throws_def apiBase_def open_handles_def single_slot_def session_phase_def Let_def

lemma es_close_fields [simp]:
  "sources (es_close es st) = (sources st)[es := (sources st ! es)\<lparr> closed := True \<rparr>]"
  "eventSource (es_close es st) = eventSource st"
  "messages (es_close es st) = messages st"
  "loading (es_close es st) = loading st"
  "query (es_close es st) = query st"
  "connections (es_close es st) = connections st"
  "selectedConnectionId (es_close es st) = selectedConnectionId st"
  "currentSessionId (es_close es st) = currentSessionId st"
  "effects (es_close es st) = effects st @ [EsClose es]"
  by (simp_all add: es_close_def)

lemma closed_after_update [simp]:
  "closed (xs[j := (xs ! j)\<lparr> closed := True \<rparr>] ! i) \<longleftrightarrow> (i = j \<and> j < length xs) \<or> closed (xs ! i)"
  by (cases "i = j"; cases "j < length xs"; simp add: list_update_beyond)

lemma closed_after_aiContent [simp]:
  "closed (xs[j := (xs ! j)\<lparr> aiContent := a \<rparr>] ! i) \<longleftrightarrow> closed (xs ! i)"
  by (cases "i = j"; cases "j < length xs"; simp add: list_update_beyond)

lemma run_Nil [simp]: "run [] st = st"
  by (simp add: run_def)

lemma run_Cons [simp]: "run (a # acts) st = run acts (step a st)"
  by (simp add: run_def)

lemma with_lastAiMessage_snoc:
  "with_lastAiMessage f (ms @ [m]) = (if msg_type m = Assistant then ms @ [f m] else ms @ [m])"
  by (simp add: with_lastAiMessage_def)

lemma with_lastAiMessage_guard:
  "ms = [] \<or> msg_type (last ms) = User \<Longrightarrow> with_lastAiMessage f ms = ms"
  by (auto simp: with_lastAiMessage_def)

lemma scenario_query_ok:
  "trim scenario_query = scenario_query" "well_formed_utf16 scenario_query" "scenario_query \<noteq> []"
  by (simp_all add: scenario_query_def trim_def is_white_space_def)

lemma streaming_eval:
  "streaming = \<lparr> query = [], loading = True,
      messages = [\<lparr> msg_id = ascii ''u1'', msg_type = User, content = scenario_query,
                     timestamp = 1, msg_loading = None, error = None \<rparr>,
                  \<lparr> msg_id = ascii ''a1'', msg_type = Assistant, content = [],
                     timestamp = 2, msg_loading = Some True, error = None \<rparr>],
      connections = [], selectedConnectionId = Some 5, eventSource = Some 0,
      currentSessionId = ascii ''s1'',
      sources = [\<lparr> closed = False, api_base = ascii ''http://localhost:8000'',
                    url_query = scenario_query, url_connection_id = 5,
                    url_session_id = ascii ''s1'', aiContent = [] \<rparr>],
      effects = [EsOpen 0] \<rparr>"
  by (simp add: sample_defs view_defs)

lemma run_append [simp]: "run (as @ bs) st = run bs (run as st)"
  by (simp add: run_def)

text \<open>The sample states are states the view reaches.\<close>

lemma ready_reachable: "ready = run [PickConnection (Some 5), EditQuery scenario_query] init"
  by (simp add: ready_def init_def handleClear_def)

lemma streaming_reachable:
  "streaming = run [PickConnection (Some 5), EditQuery scenario_query, Send sample_env] init"
  unfolding streaming_def ready_reachable by simp






subsection \<open>The single slot is an invariant\<close>

lemma single_slot_iff:
  "single_slot st \<longleftrightarrow>
     (\<forall>i < length (sources st). \<not> closed (sources st ! i) \<longrightarrow> eventSource st = Some i)"
  by (auto simp: single_slot_def open_handles_def list_all_iff)

lemma init_single_slot: "single_slot init"
  by (simp add: single_slot_def open_handles_def init_def)



lemma single_slot_step:
  assumes "single_slot st"
  shows "single_slot (step a st)"
proof (cases a)
  case (Send env)
  with assms show ?thesis
    unfolding single_slot_iff
    by (auto simp: handleSend_def open_stream_def push_turns_def Let_def nth_append
        split: option.splits if_splits)
next
  case (Deliver es d)
  show ?thesis
  proof (cases "es < length (sources st) \<and> \<not> closed (sources st ! es)")
    case False
    with assms Deliver show ?thesis
      by (auto simp: deliver_def)
  next
    case True
    with assms have held: "eventSource st = Some es"
      by (simp add: single_slot_iff)
    with assms have only:
      "\<And>i. i < length (sources st) \<Longrightarrow> \<not> closed (sources st ! i) \<Longrightarrow> i = es"
      by (auto simp: single_slot_iff)
    from True held Deliver show ?thesis
      unfolding single_slot_iff
      by (auto simp: deliver_def onmessage_def onerror_def Let_def
          split: delivery.splits if_splits dest: only)
  qed
next
  case (Loaded res)
  with assms show ?thesis
    unfolding single_slot_iff
    by (auto simp: loadConnections_def Let_def split: fetch_result.splits)
qed (use assms in \<open>auto simp: single_slot_iff handleClear_def onUnmounted_def Let_def
      split: option.splits if_splits\<close>)

lemma single_slot_run: "single_slot st \<Longrightarrow> single_slot (run acts st)"
  by (induction acts arbitrary: st) (simp_all add: single_slot_step)

lemma single_slot_at_most_one:
  assumes "single_slot st"
  shows "length (open_handles st) \<le> 1"
proof (cases "eventSource st")
  case None
  with assms have "open_handles st = []"
    by (cases "open_handles st") (simp_all add: single_slot_def)
  then show ?thesis by simp
next
  case (Some k)
  with assms have "set (open_handles st) \<subseteq> {k}"
    by (auto simp: single_slot_def list_all_iff)
  moreover have "distinct (open_handles st)"
    by (simp add: open_handles_def)
  ultimately have "card (set (open_handles st)) \<le> card {k}"
    by (intro card_mono) simp_all
  with \<open>distinct (open_handles st)\<close> show ?thesis
    by (simp add: distinct_card)
qed

text \<open>Every state the mounted view can reach has at most one open EventSource.\<close>

lemma reachable_at_most_one_open: "length (open_handles (run acts init)) \<le> 1"
  by (rule single_slot_at_most_one [OF single_slot_run [OF init_single_slot]])

subsection \<open>The states the view reaches\<close>







subsection \<open>Deliveries to a closed EventSource\<close>


subsection \<open>A send that passes the guards\<close>

lemma handleSend_opens:
  assumes "trim (query st) \<noteq> []" "\<not> no_selection (selectedConnectionId st)" "\<not> loading st"
    and "well_formed_utf16 (trim (query st))" "url_accepted env"
  shows "handleSend env st =
     (let st1 = (case eventSource st of None \<Rightarrow> push_turns env st
                 | Some old \<Rightarrow> es_close old (push_turns env st))
      in st1\<lparr> sources := sources st1 @
                 [\<lparr> closed = False, api_base = apiBase env, url_query = trim (query st),
                    url_connection_id = the (selectedConnectionId st),
                    url_session_id = id_session env, aiContent = [] \<rparr>],
               eventSource := Some (length (sources st)),
               effects := effects st1 @ [EsOpen (length (sources st))] \<rparr>)"
  using assms
  by (auto simp: handleSend_def open_stream_def push_turns_def Let_def split: option.splits)





subsection \<open>The connection list\<close>

lemma loadConnections_failed:
  "loadConnections FetchFailed st =
     st\<lparr> effects := effects st @ [ConsoleError log_load_failed, MessageError msg_load_failed] \<rparr>"
  by (simp add: loadConnections_def)

text \<open>Line 33 is the only assignment to \<open>connections\<close>.\<close>

lemma connections_step: "\<not> is_load a \<Longrightarrow> connections (step a st) = connections st"
  by (cases a)
     (auto simp: handleSend_def open_stream_def push_turns_def handleClear_def onUnmounted_def
        deliver_def onmessage_def onerror_def Let_def split: option.splits delivery.splits)

lemma connections_run:
  "list_all (\<lambda>a. \<not> is_load a) acts \<Longrightarrow> connections (run acts st) = connections st"
  by (induction acts arbitrary: st) (simp_all add: connections_step)

subsection \<open>A content that has no rendering\<close>

text \<open>The TypeError of line 105 ends the callback in its \<open>catch\<close>: the chunk is
  logged and dropped, also when its payload is flagged final.\<close>

lemma content_without_rendering_is_dropped:
  assumes "ev_data ev = Some data" "content_throws data"
  shows "onmessage es ev st = st\<lparr> effects := effects st @ [ConsoleError log_parse_failed] \<rparr>"
  using assms by (simp add: onmessage_def)

lemma to_string_examples:
  "to_string (JArr [JNum False (ascii ''-12''), JNull, JBool True, JStr [0x41],
                    JArr [JStr [0x42], JObj []]])
     = Some (ascii ''-12,,true,A,B,[object Object]'')"
  "to_string (JObj [(ascii ''toString'', JNum False (ascii ''1''))]) = None"
  "to_string (JArr [JStr [0x41], JObj [(ascii ''toString'', JNull)]]) = None"
  by (simp_all add: ascii_def)

section \<open>The claims\<close>




text \<open>
  C2. A send whose query is non-empty after trimming, with a connection selected and
  \<open>loading\<close> clear, is the push of two turns (lines 57 to 81) followed by the opening
  of the stream (lines 83 to 155). The push appends exactly the user turn carrying the
  trimmed query and then the assistant placeholder with empty text and
  \<open>loading = true\<close>, and creates no EventSource: no chunk of the session can arrive
  before both turns are in the transcript. When \<open>handleSend\<close> returns, the transcript is
  still the old one followed by these two turns; only if the EventSource constructor
  threw has the \<open>catch\<close> already marked the placeholder as failed.
\<close>

theorem handleSend_appends_two_turns:
  assumes "trim (query st) \<noteq> []" "\<not> no_selection (selectedConnectionId st)" "\<not> loading st"
  shows "handleSend env st = open_stream env (trim (query st)) (push_turns env st)
       \<and> messages (push_turns env st) = messages st @
            [\<lparr> msg_id = id_user env, msg_type = User, content = trim (query st),
                timestamp = now_user env, msg_loading = None, error = None \<rparr>,
             \<lparr> msg_id = id_ai env, msg_type = Assistant, content = [],
                timestamp = now_ai env, msg_loading = Some True, error = None \<rparr>]
       \<and> sources (push_turns env st) = sources st
       \<and> messages (handleSend env st) = messages st @
            [userMessage env st,
             if well_formed_utf16 (trim (query st)) \<and> \<not> url_accepted env
             then (aiMessage env)\<lparr> msg_loading := Some False, error := Some msg_send_failed \<rparr>
             else aiMessage env]"
  using assms
  by (auto simp: handleSend_def open_stream_def push_turns_def userMessage_def aiMessage_def
      Let_def with_lastAiMessage_def butlast_append split: option.splits)

theorem handleSend_appends_two_turns_witness:
  "trim (query ready) \<noteq> [] \<and> \<not> no_selection (selectedConnectionId ready) \<and> \<not> loading ready
   \<and> messages ready = []
   \<and> messages (handleSend sample_env ready) =
        [\<lparr> msg_id = ascii ''u1'', msg_type = User, content = scenario_query,
            timestamp = 1, msg_loading = None, error = None \<rparr>,
         \<lparr> msg_id = ascii ''a1'', msg_type = Assistant, content = [],
            timestamp = 2, msg_loading = Some True, error = None \<rparr>]"
proof -
  have h: "trim (query ready) \<noteq> []" "\<not> no_selection (selectedConnectionId ready)"
    "\<not> loading ready"
    by (simp_all add: ready_def init_def scenario_query_ok no_selection_def)
  have m: "messages ready = []" "url_accepted sample_env"
    by (simp_all add: ready_def init_def sample_env_def)
  have u: "userMessage sample_env ready =
             \<lparr> msg_id = ascii ''u1'', msg_type = User, content = scenario_query,
               timestamp = 1, msg_loading = None, error = None \<rparr>"
          "aiMessage sample_env =
             \<lparr> msg_id = ascii ''a1'', msg_type = Assistant, content = [],
               timestamp = 2, msg_loading = Some True, error = None \<rparr>"
    by (simp_all add: userMessage_def aiMessage_def sample_env_def ready_def init_def
        scenario_query_ok)
  note t = handleSend_appends_two_turns [OF h, of sample_env]
  from t [THEN conjunct2, THEN conjunct2, THEN conjunct2] h m u show ?thesis
    by simp
qed

text \<open>
  C3. The scenario: the query of the specification is typed, connection 5 is
  selected, nothing is in flight; the send is followed by the deliveries, to the
  EventSource it created, of a chunk with content U+9500, a chunk with content U+552E
  and a chunk with only \<open>is_final = true\<close>. The transcript then ends with the user turn
  and the assistant turn whose text is U+9500 U+552E and whose \<open>loading\<close> is false.
\<close>

theorem scenario_two_chunks_then_final:
  assumes "query st = scenario_query" "selectedConnectionId st = Some 5" "\<not> loading st"
    and "url_accepted env"
  shows "messages (run [Send env,
                        Deliver (length (sources st)) (ServerEvent (chunk [0x9500])),
                        Deliver (length (sources st)) (ServerEvent (chunk [0x552E])),
                        Deliver (length (sources st)) (ServerEvent final_chunk)] st)
         = messages st @
            [\<lparr> msg_id = id_user env, msg_type = User, content = scenario_query,
                timestamp = now_user env, msg_loading = None, error = None \<rparr>,
             \<lparr> msg_id = id_ai env, msg_type = Assistant, content = [0x9500, 0x552E],
                timestamp = now_ai env, msg_loading = Some False, error = None \<rparr>]"
proof -
  have g: "trim (query st) \<noteq> []" "\<not> no_selection (selectedConnectionId st)" "\<not> loading st"
    "well_formed_utf16 (trim (query st))" "url_accepted env"
    using assms by (simp_all add: scenario_query_ok no_selection_def)
  have k: "ascii ''content'' \<noteq> ascii ''is_final''" "ascii ''message'' \<noteq> ascii ''final_result''"
    by (simp_all add: ascii_def)
  show ?thesis
    using assms k
    by (cases "eventSource st")
       (simp_all add: handleSend_opens [OF g] Let_def push_turns_def userMessage_def aiMessage_def
         deliver_def onmessage_def content_throws_def chunk_def final_chunk_def nth_append
         with_lastAiMessage_def butlast_append scenario_query_ok)
qed

theorem scenario_two_chunks_then_final_witness:
  "query ready = scenario_query \<and> selectedConnectionId ready = Some 5 \<and> \<not> loading ready
   \<and> url_accepted sample_env
   \<and> messages (run [Send sample_env,
                     Deliver 0 (ServerEvent (chunk [0x9500])),
                     Deliver 0 (ServerEvent (chunk [0x552E])),
                     Deliver 0 (ServerEvent final_chunk)] ready)
      = [\<lparr> msg_id = ascii ''u1'', msg_type = User, content = scenario_query,
            timestamp = 1, msg_loading = None, error = None \<rparr>,
         \<lparr> msg_id = ascii ''a1'', msg_type = Assistant, content = [0x9500, 0x552E],
            timestamp = 2, msg_loading = Some False, error = None \<rparr>]"
proof -
  have h: "query ready = scenario_query" "selectedConnectionId ready = Some 5" "\<not> loading ready"
    "url_accepted sample_env"
    by (simp_all add: ready_def init_def sample_env_def)
  have r: "length (sources ready) = 0" "messages ready = []"
    "id_user sample_env = ascii ''u1''" "id_ai sample_env = ascii ''a1''"
    "now_user sample_env = 1" "now_ai sample_env = 2"
    by (simp_all add: ready_def init_def sample_env_def)
  from scenario_two_chunks_then_final [OF h] have
    "messages (run [Send sample_env,
                     Deliver 0 (ServerEvent (chunk [0x9500])),
                     Deliver 0 (ServerEvent (chunk [0x552E])),
                     Deliver 0 (ServerEvent final_chunk)] ready)
      = [\<lparr> msg_id = ascii ''u1'', msg_type = User, content = scenario_query,
            timestamp = 1, msg_loading = None, error = None \<rparr>,
         \<lparr> msg_id = ascii ''a1'', msg_type = Assistant, content = [0x9500, 0x552E],
            timestamp = 2, msg_loading = Some False, error = None \<rparr>]"
    unfolding r by simp
  with h show ?thesis
    by blast
qed

text \<open>
  The callback finalizes on either signal: run on an event whose payload has a truthy
  \<open>is_final\<close>, or whose type is \<open>final_result\<close>, it closes its EventSource, nulls
  \<open>eventSource\<close>, clears \<open>loading\<close> and sets \<open>loading = false\<close> on a last assistant turn
  (unless the concatenation of the content threw, which ends the callback in its
  \<open>catch\<close> before the test of line 115).
\<close>

lemma onmessage_finalizes:
  assumes "ev_data ev = Some data" "data \<noteq> JNull" "\<not> content_throws data"
    and "truthy (get_prop data (ascii ''is_final'')) \<or> ev_type ev = ascii ''final_result''"
  shows "eventSource (onmessage es ev st) = None \<and> \<not> loading (onmessage es ev st)
       \<and> (es < length (sources st) \<longrightarrow> closed (sources (onmessage es ev st) ! es))
       \<and> (messages st \<noteq> [] \<and> msg_type (last (messages st)) = Assistant \<longrightarrow>
            msg_loading (last (messages (onmessage es ev st))) = Some False)"
  using assms
  by (auto simp: onmessage_def Let_def with_lastAiMessage_def)

text \<open>
  A payload flagged final reaches the callback when it comes as a plain message, and
  the session is finalized.
\<close>

lemma final_flag_finalizes:
  assumes "es < length (sources st)" "\<not> closed (sources st ! es)"
    and "ev_type ev = ascii ''message''" "ev_data ev = Some data" "data \<noteq> JNull"
    and "\<not> content_throws data" "truthy (get_prop data (ascii ''is_final''))"
    and "messages st \<noteq> []" "msg_type (last (messages st)) = Assistant"
  shows "closed (sources (deliver es (ServerEvent ev) st) ! es)
       \<and> eventSource (deliver es (ServerEvent ev) st) = None
       \<and> \<not> loading (deliver es (ServerEvent ev) st)
       \<and> msg_loading (last (messages (deliver es (ServerEvent ev) st))) = Some False"
proof -
  have "deliver es (ServerEvent ev) st = onmessage es ev st"
    using assms(1-3) by (simp add: deliver_def)
  with onmessage_finalizes [OF assms(4,5,6) disjI1 [OF assms(7)], of es st] assms show ?thesis
    by simp
qed

text \<open>
  C4. Finalization on a terminal event: a payload with \<open>is_final = true\<close> finalizes
  the session (\<open>final_flag_finalizes\<close>), and so would the callback on an event of type
  \<open>final_result\<close> whatever its payload's flag (\<open>onmessage_finalizes\<close>). But an event
  of that distinct kind never reaches the callback: the view installs it as
  \<open>es.onmessage\<close> and adds no listener for \<open>final_result\<close>, so the test
  \<open>event.type === 'final_result'\<close> inside it is never true of an event it is run on.
  In the streaming state of the scenario, the delivery of an event named
  \<open>final_result\<close> with the payload \<open>{"is_final": false}\<close> changes nothing: the
  EventSource stays open, \<open>loading\<close> stays set and the assistant turn stays pending.
\<close>

theorem named_final_event_is_not_handled:
  "deliver 0 (ServerEvent named_final) streaming = streaming
   \<and> loading streaming \<and> open_handles streaming = [0] \<and> eventSource streaming = Some 0
   \<and> map msg_loading (messages streaming) = [None, Some True]
   \<and> ev_type named_final = ascii ''final_result''
   \<and> get_prop (the (ev_data named_final)) (ascii ''is_final'') = Some (JBool False)"
  by (simp add: streaming_eval deliver_def named_final_def open_handles_def ascii_def)

text \<open>
  C5. A transport error delivered to the open EventSource \<open>es\<close> while the last turn
  \<open>m\<close> is an assistant turn: the object is closed, \<open>eventSource\<close> is null, \<open>loading\<close> is
  clear (the session is Failed), \<open>m\<close> gets \<open>loading = false\<close> and the fixed, non-empty
  message U+8FDE U+63A5 U+5931 U+8D25 U+FF0C U+8BF7 U+7A0D U+540E U+91CD U+8BD5 as its
  \<open>error\<close> with its text untouched, the same message is shown as a notification, and
  nothing else happens: the log gains the console line, the close and the
  notification, no EventSource is created. In particular, when the error is the first
  delivery after a send, the assistant turn ends with empty text. (In every state the
  view reaches, an open EventSource is the held one and the last turn is its pending
  assistant turn: \<open>reachable_view_inv\<close>.)
\<close>

theorem transport_error_fails_session:
  "(es < length (sources st) \<and> \<not> closed (sources st ! es) \<and>
    messages st = ms @ [m] \<and> msg_type m = Assistant \<longrightarrow>
      deliver es ConnectionError st =
        st\<lparr> sources := (sources st)[es := (sources st ! es)\<lparr> closed := True \<rparr>],
            eventSource := None, loading := False,
            messages := ms @ [m\<lparr> msg_loading := Some False,
                                  error := Some msg_connection_failed \<rparr>],
            effects := effects st @
              [ConsoleError log_sse_error, EsClose es, MessageError msg_connection_failed] \<rparr>
      \<and> closed (sources (deliver es ConnectionError st) ! es)
      \<and> open_handles (deliver es ConnectionError st) = removeAll es (open_handles st)
      \<and> session_phase (deliver es ConnectionError st) = Failed)
   \<and> msg_connection_failed \<noteq> []
   \<and> (trim (query s0) \<noteq> [] \<and> \<not> no_selection (selectedConnectionId s0) \<and> \<not> loading s0 \<and>
      well_formed_utf16 (trim (query s0)) \<and> url_accepted env \<longrightarrow>
        messages (run [Send env, Deliver (length (sources s0)) ConnectionError] s0) =
          messages s0 @
            [userMessage env s0,
             \<lparr> msg_id = id_ai env, msg_type = Assistant, content = [],
               timestamp = now_ai env, msg_loading = Some False,
               error = Some msg_connection_failed \<rparr>])"
proof -
  have general: "deliver es ConnectionError st =
        st\<lparr> sources := (sources st)[es := (sources st ! es)\<lparr> closed := True \<rparr>],
            eventSource := None, loading := False,
            messages := ms @ [m\<lparr> msg_loading := Some False,
                                  error := Some msg_connection_failed \<rparr>],
            effects := effects st @
              [ConsoleError log_sse_error, EsClose es, MessageError msg_connection_failed] \<rparr>
      \<and> closed (sources (deliver es ConnectionError st) ! es)
      \<and> open_handles (deliver es ConnectionError st) = removeAll es (open_handles st)
      \<and> session_phase (deliver es ConnectionError st) = Failed"
    if "es < length (sources st)" "\<not> closed (sources st ! es)"
      "messages st = ms @ [m]" "msg_type m = Assistant"
  proof -
    have eq: "deliver es ConnectionError st =
        st\<lparr> sources := (sources st)[es := (sources st ! es)\<lparr> closed := True \<rparr>],
            eventSource := None, loading := False,
            messages := ms @ [m\<lparr> msg_loading := Some False,
                                  error := Some msg_connection_failed \<rparr>],
            effects := effects st @
              [ConsoleError log_sse_error, EsClose es, MessageError msg_connection_failed] \<rparr>"
      using that
      by (simp add: deliver_def onerror_def Let_def with_lastAiMessage_snoc es_close_def)
    have "filter (\<lambda>i. \<not> closed ((sources st)[es := (sources st ! es)\<lparr> closed := True \<rparr>] ! i))
            [0 ..< length (sources st)]
          = removeAll es (filter (\<lambda>i. \<not> closed (sources st ! i)) [0 ..< length (sources st)])"
      using that(1) by (auto simp: removeAll_filter_not_eq intro: filter_cong)
    with that(1) show ?thesis
      unfolding eq by (simp add: session_phase_def open_handles_def)
  qed
  have nonempty: "msg_connection_failed \<noteq> []"
    by (simp add: msg_connection_failed_def)
  have first: "messages (run [Send env, Deliver (length (sources s0)) ConnectionError] s0) =
          messages s0 @
            [userMessage env s0,
             \<lparr> msg_id = id_ai env, msg_type = Assistant, content = [],
               timestamp = now_ai env, msg_loading = Some False,
               error = Some msg_connection_failed \<rparr>]"
    if g: "trim (query s0) \<noteq> []" "\<not> no_selection (selectedConnectionId s0)" "\<not> loading s0"
      "well_formed_utf16 (trim (query s0))" "url_accepted env"
    by (cases "eventSource s0")
       (simp_all add: handleSend_opens [OF g] Let_def push_turns_def aiMessage_def
         deliver_def onerror_def nth_append with_lastAiMessage_def butlast_append)
  from general nonempty first show ?thesis
    by blast
qed

theorem transport_error_fails_session_witness:
  "messages (deliver 0 ConnectionError streaming) =
     [\<lparr> msg_id = ascii ''u1'', msg_type = User, content = scenario_query,
         timestamp = 1, msg_loading = None, error = None \<rparr>,
      \<lparr> msg_id = ascii ''a1'', msg_type = Assistant, content = [],
         timestamp = 2, msg_loading = Some False, error = Some msg_connection_failed \<rparr>]
   \<and> effects (deliver 0 ConnectionError streaming) =
       [EsOpen 0, ConsoleError log_sse_error, EsClose 0, MessageError msg_connection_failed]
   \<and> open_handles streaming = [0]
   \<and> open_handles (deliver 0 ConnectionError streaming) = []
   \<and> session_phase (deliver 0 ConnectionError streaming) = Failed"
proof -
  let ?u = "\<lparr> msg_id = ascii ''u1'', msg_type = User, content = scenario_query,
               timestamp = 1, msg_loading = None, error = None \<rparr>"
  let ?a = "\<lparr> msg_id = ascii ''a1'', msg_type = Assistant, content = [],
               timestamp = 2, msg_loading = Some True, error = None \<rparr>"
  have h: "0 < length (sources streaming) \<and> \<not> closed (sources streaming ! 0) \<and>
           messages streaming = [?u] @ [?a] \<and> msg_type ?a = Assistant"
    by (simp add: streaming_eval)
  have o: "open_handles streaming = [0]"
    by (simp add: streaming_eval open_handles_def)
  note t = transport_error_fails_session [of 0 streaming "[?u]" ?a, THEN conjunct1, rule_format, OF h]
  have m: "messages (deliver 0 ConnectionError streaming) =
     [?u, ?a\<lparr> msg_loading := Some False, error := Some msg_connection_failed \<rparr>]"
    by (subst t [THEN conjunct1]) simp
  have e: "effects (deliver 0 ConnectionError streaming) =
       [EsOpen 0, ConsoleError log_sse_error, EsClose 0, MessageError msg_connection_failed]"
    by (subst t [THEN conjunct1]) (simp add: streaming_eval)
  have c: "open_handles (deliver 0 ConnectionError streaming) = []"
    by (simp add: t [THEN conjunct2, THEN conjunct2, THEN conjunct1] o)
  from m e o c t [THEN conjunct2, THEN conjunct2, THEN conjunct2] show ?thesis
    by simp
qed

text \<open>
  C6. A chunk whose payload does not parse (\<open>JSON.parse\<close> throws) is logged and
  dropped: the callback returns the state it was given with one console line added.
  The transcript, every EventSource (its \<open>aiContent\<close> and whether it is open), the held
  handle and \<open>loading\<close> are as before, so the session continues.
\<close>

theorem malformed_chunk_dropped:
  assumes "ev_data ev = None"
  shows "onmessage es ev st = st\<lparr> effects := effects st @ [ConsoleError log_parse_failed] \<rparr>
       \<and> messages (deliver es (ServerEvent ev) st) = messages st
       \<and> sources (deliver es (ServerEvent ev) st) = sources st
       \<and> eventSource (deliver es (ServerEvent ev) st) = eventSource st
       \<and> loading (deliver es (ServerEvent ev) st) = loading st
       \<and> session_phase (deliver es (ServerEvent ev) st) = session_phase st"
  using assms by (simp add: onmessage_def deliver_def session_phase_def)

theorem malformed_chunk_dropped_witness:
  "onmessage 0 \<lparr> ev_type = ascii ''message'', ev_data = None \<rparr> streaming =
     streaming\<lparr> effects := [EsOpen 0, ConsoleError log_parse_failed] \<rparr>
   \<and> aiContent (sources (deliver 0 (ServerEvent \<lparr> ev_type = ascii ''message'', ev_data = None \<rparr>)
        (run [Deliver 0 (ServerEvent (chunk [0x9500]))] streaming)) ! 0) = [0x9500]"
proof -
  let ?bad = "\<lparr> ev_type = ascii ''message'', ev_data = None \<rparr>"
  let ?s = "run [Deliver 0 (ServerEvent (chunk [0x9500]))] streaming"
  have h: "ev_data ?bad = None"
    by simp
  have k: "ascii ''content'' \<noteq> ascii ''is_final''" "ascii ''message'' \<noteq> ascii ''final_result''"
    by (simp_all add: ascii_def)
  have s: "aiContent (sources ?s ! 0) = [0x9500]"
    using k
    by (simp add: streaming_eval deliver_def onmessage_def content_throws_def chunk_def Let_def)
  from malformed_chunk_dropped [OF h, of 0 streaming] malformed_chunk_dropped [OF h, of 0 ?s] s
  show ?thesis
    by (simp add: streaming_eval)
qed

text \<open>
  C7. A send with a query that is empty after trimming, or with no connection
  selected, or while \<open>loading\<close> is set, returns the state it was given: no turn, no
  EventSource created or closed, no ref written. The only thing that happens is the
  warning in the first two cases (in the order the guards are tested), and nothing
  at all in the third.
\<close>

theorem handleSend_rejected_is_noop:
  assumes "trim (query st) = [] \<or> no_selection (selectedConnectionId st) \<or> loading st"
  shows "handleSend env st =
           st\<lparr> effects := effects st @
                 (if trim (query st) = [] then [MessageWarning msg_enter_question]
                  else if no_selection (selectedConnectionId st)
                  then [MessageWarning msg_select_source]
                  else []) \<rparr>
       \<and> messages (handleSend env st) = messages st
       \<and> sources (handleSend env st) = sources st
       \<and> eventSource (handleSend env st) = eventSource st
       \<and> loading (handleSend env st) = loading st
       \<and> session_phase (handleSend env st) = session_phase st"
  using assms by (auto simp: handleSend_def session_phase_def)

theorem handleSend_rejected_is_noop_witness:
  "handleSend sample_env (ready\<lparr> query := [0x20, 0x3000] \<rparr>) =
     ready\<lparr> query := [0x20, 0x3000], effects := [MessageWarning msg_enter_question] \<rparr>
   \<and> handleSend sample_env (ready\<lparr> selectedConnectionId := None \<rparr>) =
     ready\<lparr> selectedConnectionId := None, effects := [MessageWarning msg_select_source] \<rparr>
   \<and> handleSend sample_env (run [EditQuery scenario_query] streaming) =
     run [EditQuery scenario_query] streaming
   \<and> loading (run [EditQuery scenario_query] streaming)"
proof -
  let ?a = "ready\<lparr> query := [0x20, 0x3000] \<rparr>"
  let ?b = "ready\<lparr> selectedConnectionId := None \<rparr>"
  let ?c = "run [EditQuery scenario_query] streaming"
  have a: "trim (query ?a) = []"
    by (simp add: trim_def is_white_space_def)
  have b: "trim (query ?b) \<noteq> []" "no_selection (selectedConnectionId ?b)"
    by (simp_all add: ready_def init_def scenario_query_ok no_selection_def)
  have c: "trim (query ?c) \<noteq> []" "\<not> no_selection (selectedConnectionId ?c)" "loading ?c"
    by (simp_all add: streaming_eval scenario_query_ok no_selection_def)
  have e: "effects ready = []"
    by (simp add: ready_def init_def)
  from a have ha: "trim (query ?a) = [] \<or> no_selection (selectedConnectionId ?a) \<or> loading ?a"
    by simp
  from b have hb: "trim (query ?b) = [] \<or> no_selection (selectedConnectionId ?b) \<or> loading ?b"
    by simp
  from c have hc: "trim (query ?c) = [] \<or> no_selection (selectedConnectionId ?c) \<or> loading ?c"
    by simp
  have ra: "handleSend sample_env ?a = ?a\<lparr> effects := [MessageWarning msg_enter_question] \<rparr>"
    using handleSend_rejected_is_noop [OF ha, of sample_env, THEN conjunct1] a e by simp
  have rb: "handleSend sample_env ?b = ?b\<lparr> effects := [MessageWarning msg_select_source] \<rparr>"
    using handleSend_rejected_is_noop [OF hb, of sample_env, THEN conjunct1] b e by simp
  have rc: "handleSend sample_env ?c = ?c"
    using handleSend_rejected_is_noop [OF hc, of sample_env, THEN conjunct1] c by simp
  from ra rb rc c(3) show ?thesis
    by simp
qed

text \<open>
  C8. \<open>handleClear\<close> is total: from any state it returns a state with an empty
  transcript, a null \<open>eventSource\<close> and \<open>loading\<close> clear (the session is Idle). It closes
  the EventSource it holds; with the single slot, which every state the view reaches
  has, no EventSource is open afterwards.
\<close>

theorem handleClear_resets:
  "messages (handleClear st) = [] \<and> eventSource (handleClear st) = None \<and>
   \<not> loading (handleClear st) \<and> session_phase (handleClear st) = Idle \<and>
   (single_slot st \<longrightarrow> open_handles (handleClear st) = [])"
  by (auto simp: handleClear_def Let_def session_phase_def single_slot_iff open_handles_def
      filter_empty_conv split: option.splits)

theorem handleClear_resets_witness:
  "open_handles (run [Deliver 0 (ServerEvent (chunk [0x9500]))] streaming) = [0]
   \<and> length (messages (run [Deliver 0 (ServerEvent (chunk [0x9500]))] streaming)) = 2
   \<and> messages (handleClear (run [Deliver 0 (ServerEvent (chunk [0x9500]))] streaming)) = []
   \<and> open_handles (handleClear (run [Deliver 0 (ServerEvent (chunk [0x9500]))] streaming)) = []
   \<and> session_phase (handleClear (run [Deliver 0 (ServerEvent (chunk [0x9500]))] streaming)) = Idle"
proof -
  let ?s = "run [Deliver 0 (ServerEvent (chunk [0x9500]))] streaming"
  have "single_slot streaming"
    unfolding streaming_def ready_def
    by (rule single_slot_run) (simp add: single_slot_def open_handles_def init_def)
  then have slot: "single_slot ?s"
    by (rule single_slot_run)
  have k: "ascii ''content'' \<noteq> ascii ''is_final''" "ascii ''message'' \<noteq> ascii ''final_result''"
    by (simp_all add: ascii_def)
  have o: "open_handles ?s = [0]" "length (messages ?s) = 2"
    using k
    by (simp_all add: streaming_eval deliver_def onmessage_def content_throws_def chunk_def
        Let_def open_handles_def with_lastAiMessage_def)
  from handleClear_resets [of ?s] slot o show ?thesis
    by blast
qed

text \<open>
  C9. The fetch of the connections is the one issued on mount; nothing else assigns
  \<open>connections\<close>, so whatever the view did before the fetch fails (\<open>pre\<close>, without a
  \<open>Loaded\<close>), the list is the empty one it started as. On the failure
  \<open>loadConnections\<close> logs, shows the error notice and writes no ref: the view goes on
  in the state it was in, the list exposed is empty, and it stays empty afterwards.
\<close>

theorem failed_fetch_yields_empty_list:
  assumes "list_all (\<lambda>a. \<not> is_load a) pre"
  shows "connections (run (pre @ [Loaded FetchFailed]) init) = []
       \<and> run (pre @ [Loaded FetchFailed]) init =
           (run pre init)\<lparr> effects := effects (run pre init) @
              [ConsoleError log_load_failed, MessageError msg_load_failed] \<rparr>
       \<and> (list_all (\<lambda>a. \<not> is_load a) post \<longrightarrow>
            connections (run (pre @ [Loaded FetchFailed] @ post) init) = [])"
proof -
  from assms have before: "connections (run pre init) = []"
    by (simp add: connections_run init_def)
  have failed: "run (pre @ [Loaded FetchFailed]) init =
           (run pre init)\<lparr> effects := effects (run pre init) @
              [ConsoleError log_load_failed, MessageError msg_load_failed] \<rparr>"
    by (simp add: loadConnections_failed)
  with before have after: "connections (run (pre @ [Loaded FetchFailed]) init) = []"
    by simp
  have later: "connections (run (pre @ [Loaded FetchFailed] @ post) init) = []"
    if "list_all (\<lambda>a. \<not> is_load a) post"
  proof -
    have "connections (run post (run (pre @ [Loaded FetchFailed]) init))
            = connections (run (pre @ [Loaded FetchFailed]) init)"
      by (rule connections_run [OF that])
    with after show ?thesis
      by simp
  qed
  from after failed later show ?thesis
    by blast
qed

theorem failed_fetch_yields_empty_list_witness:
  "connections (run ([PickConnection (Some 5), EditQuery scenario_query, Send sample_env]
                       @ [Loaded FetchFailed]) init) = []
   \<and> effects (run ([PickConnection (Some 5), EditQuery scenario_query, Send sample_env]
                       @ [Loaded FetchFailed]) init)
       = [EsOpen 0, ConsoleError log_load_failed, MessageError msg_load_failed]
   \<and> connections (run ([PickConnection (Some 5), EditQuery scenario_query, Send sample_env]
                       @ [Loaded FetchFailed] @ [Clear]) init) = []"
proof -
  let ?pre = "[PickConnection (Some 5), EditQuery scenario_query, Send sample_env]"
  have h: "list_all (\<lambda>a. \<not> is_load a) ?pre"
    by simp
  have p: "list_all (\<lambda>a. \<not> is_load a) [Clear]"
    by simp
  have r: "run ?pre init = streaming"
    by (rule streaming_reachable [symmetric])
  have e: "effects (run ?pre init) = [EsOpen 0]"
    unfolding r by (simp add: streaming_eval)
  note t = failed_fetch_yields_empty_list [OF h, of "[Clear]"]
  from t have a: "connections (run (?pre @ [Loaded FetchFailed]) init) = []"
    by blast
  have b: "effects (run (?pre @ [Loaded FetchFailed]) init)
       = [EsOpen 0, ConsoleError log_load_failed, MessageError msg_load_failed]"
    by (subst t [THEN conjunct2, THEN conjunct1]) (simp add: e del: run_Cons)
  from t p have c: "connections (run (?pre @ [Loaded FetchFailed] @ [Clear]) init) = []"
    by blast
  from a b c show ?thesis
    by blast
qed

text \<open>The registry scenario of the specification: of three fetched connections one is
  disabled; the view exposes the other two, in order, and selects the first.\<close>

lemma loadConnections_scenario:
  "connections (loadConnections
      (FetchOk [sample_connection\<lparr> conn_id := 7 \<rparr>,
                sample_connection\<lparr> conn_id := 8, status := 0 \<rparr>,
                sample_connection\<lparr> conn_id := 9 \<rparr>]) init)
     = [sample_connection\<lparr> conn_id := 7 \<rparr>, sample_connection\<lparr> conn_id := 9 \<rparr>]
   \<and> selectedConnectionId (loadConnections
      (FetchOk [sample_connection\<lparr> conn_id := 7 \<rparr>,
                sample_connection\<lparr> conn_id := 8, status := 0 \<rparr>,
                sample_connection\<lparr> conn_id := 9 \<rparr>]) init) = Some 7"
  by (simp add: loadConnections_def init_def sample_connection_def no_selection_def Let_def)

text \<open>
  C10. The chunk branch and the finalization branch of \<open>es.onmessage\<close>, and
  \<open>es.onerror\<close>, write to the transcript only through the guarded read of its last
  element. On an empty transcript, or one whose last turn is a user turn, each
  callback (and so each delivery) leaves the transcript as it is; the read of the last
  element of an empty array is the \<open>undefined\<close> that the guard rejects, not a fault.
  In every state a callback keeps the number of turns and all turns but the last.
\<close>

theorem callbacks_guard_last_turn:
  "(messages st = [] \<or> msg_type (last (messages st)) = User \<longrightarrow>
      messages (onmessage es ev st) = messages st
    \<and> messages (onerror es st) = messages st
    \<and> messages (deliver es d st) = messages st)
   \<and> length (messages (onmessage es ev st)) = length (messages st)
   \<and> butlast (messages (onmessage es ev st)) = butlast (messages st)
   \<and> length (messages (onerror es st)) = length (messages st)
   \<and> butlast (messages (onerror es st)) = butlast (messages st)"
proof -
  have shape: "length (with_lastAiMessage f ms) = length ms"
    "butlast (with_lastAiMessage f ms) = butlast ms" for f ms
    by (simp_all add: with_lastAiMessage_def)
  have guarded: "messages (onmessage es ev st) = messages st
    \<and> messages (onerror es st) = messages st
    \<and> messages (deliver es d st) = messages st"
    if "messages st = [] \<or> msg_type (last (messages st)) = User"
    using that
    by (auto simp: deliver_def onmessage_def onerror_def Let_def with_lastAiMessage_guard
        split: delivery.splits)
  have "length (messages (onmessage es ev st)) = length (messages st)"
    "butlast (messages (onmessage es ev st)) = butlast (messages st)"
    "length (messages (onerror es st)) = length (messages st)"
    "butlast (messages (onerror es st)) = butlast (messages st)"
    by (simp_all add: onmessage_def onerror_def Let_def shape)
  with guarded show ?thesis
    by blast
qed

theorem callbacks_guard_last_turn_witness:
  "messages (onmessage 0 final_chunk (streaming\<lparr> messages := [] \<rparr>)) = []
   \<and> messages (onerror 0 (streaming\<lparr> messages := [] \<rparr>)) = []
   \<and> messages (onmessage 0 (chunk [0x9500]) (streaming\<lparr> messages := butlast (messages streaming) \<rparr>))
       = butlast (messages streaming)
   \<and> msg_type (last (butlast (messages streaming))) = User"
proof -
  let ?e = "streaming\<lparr> messages := [] \<rparr>"
  let ?u = "streaming\<lparr> messages := butlast (messages streaming) \<rparr>"
  have he: "messages ?e = [] \<or> msg_type (last (messages ?e)) = User"
    by simp
  have u: "msg_type (last (butlast (messages streaming))) = User"
    by (simp add: streaming_eval)
  then have hu: "messages ?u = [] \<or> msg_type (last (messages ?u)) = User"
    by simp
  note te = callbacks_guard_last_turn [of ?e 0 final_chunk ConnectionError, THEN conjunct1, rule_format, OF he]
  note tu = callbacks_guard_last_turn [of ?u 0 "chunk [0x9500]" ConnectionError, THEN conjunct1, rule_format, OF hu]
  from te tu u show ?thesis
    by simp
qed

end
